theory Spec2Isabelle
  imports Main
begin

section \<open>Go values shared by the two packages\<close>

text \<open>
  A Go \<^verbatim>\<open>error\<close> is kept structurally: the wrapping done by \<^verbatim>\<open>errors.Wrap\<close> and the format
  and arguments given to \<^verbatim>\<open>fmt.Errorf\<close> / \<^verbatim>\<open>errors.Errorf\<close> are constructors, so that no claim
  depends on how a message is rendered. \<open>External\<close> stands for an error value produced by a
  collaborator whose code is outside the sources (an RPC, a subprocess, a dial, a read).
  A nil error is \<open>None\<close> of \<open>error option\<close>.
\<close>

datatype error =
    ErrSyntax
  | ErrRange
  | NumError string string error
  | External string
  | Wrap error string
  | Errorf string "fmt_arg list"
and fmt_arg =
    ArgS string
  | ArgD int
  | ArgV error

text \<open>\<^verbatim>\<open>time.Duration\<close> counts nanoseconds.\<close>

definition Second :: int where
  "Second = 1000000000"

section \<open>\<^verbatim>\<open>strconv\<close> and \<^verbatim>\<open>strings\<close> of the Go standard library\<close>

text \<open>
  \<^verbatim>\<open>strconv.Atoi\<close> (base 10, \<^verbatim>\<open>int\<close> of 64 bits): an optional sign \<^verbatim>\<open>+\<close> or \<^verbatim>\<open>-\<close>, then at least
  one decimal digit and nothing else. The digits are read left to right into an unsigned 64-bit
  accumulator; the first character that is no digit is a syntax error, an accumulator that
  would pass \<open>2^64 - 1\<close> is a range error, and so is a value outside \<open>[-2^63, 2^63 - 1]\<close>.
\<close>

definition isDigit :: "char \<Rightarrow> bool" where
  "isDigit c = (48 \<le> (of_char c :: nat) \<and> (of_char c :: nat) \<le> 57)"

definition digitVal :: "char \<Rightarrow> nat" where
  "digitVal c = of_char c - 48"

definition maxUint64 :: nat where
  "maxUint64 = 2 ^ 64 - 1"

fun parseDigits :: "nat \<Rightarrow> string \<Rightarrow> error + nat" where
  "parseDigits n [] = Inr n"
| "parseDigits n (c # cs) =
     (if \<not> isDigit c then Inl ErrSyntax
      else if maxUint64 < n * 10 + digitVal c then Inl ErrRange
      else parseDigits (n * 10 + digitVal c) cs)"

definition Atoi :: "string \<Rightarrow> error + int" where
  "Atoi s =
     (if s = [] then Inl (NumError ''Atoi'' s ErrSyntax)
      else
        let neg = (hd s = CHR ''-'');
            body = (if hd s = CHR ''+'' \<or> hd s = CHR ''-'' then tl s else s)
        in if body = [] then Inl (NumError ''Atoi'' s ErrSyntax)
           else (case parseDigits 0 body of
                   Inl e \<Rightarrow> Inl (NumError ''Atoi'' s e)
                 | Inr un \<Rightarrow>
                     if \<not> neg \<and> 2 ^ 63 \<le> un then Inl (NumError ''Atoi'' s ErrRange)
                     else if neg \<and> 2 ^ 63 < un then Inl (NumError ''Atoi'' s ErrRange)
                     else Inr (if neg then - int un else int un)))"

text \<open>
  \<^verbatim>\<open>strconv.Itoa\<close>: the digits are produced from the least significant one, each put in
  front of those already written, as the standard library's loop does.
\<close>

definition digitChar :: "nat \<Rightarrow> char" where
  "digitChar d = char_of (48 + d)"

function formatBits :: "nat \<Rightarrow> string \<Rightarrow> string" where
  "formatBits u acc =
     (if 10 \<le> u then formatBits (u div 10) (digitChar (u mod 10) # acc)
      else digitChar u # acc)"
  by pat_completeness auto
termination
  by (relation "measure (\<lambda>(u, acc). u)") auto

declare formatBits.simps [simp del]

definition Itoa :: "int \<Rightarrow> string" where
  "Itoa i = (if i < 0 then CHR ''-'' # formatBits (nat (- i)) [] else formatBits (nat i) [])"

text \<open>\<^verbatim>\<open>strings.HasPrefix\<close> and \<^verbatim>\<open>strings.Contains\<close>.\<close>

fun HasPrefix :: "string \<Rightarrow> string \<Rightarrow> bool" where
  "HasPrefix s [] = True"
| "HasPrefix [] (p # ps) = False"
| "HasPrefix (c # cs) (p # ps) = (c = p \<and> HasPrefix cs ps)"

fun Contains :: "string \<Rightarrow> string \<Rightarrow> bool" where
  "Contains [] substr = (substr = [])"
| "Contains (c # cs) substr = (HasPrefix (c # cs) substr \<or> Contains cs substr)"

section \<open>The bridge (\<^verbatim>\<open>pkg/client/connector/bridge.go\<close>)\<close>

definition K8sBridgeWorker :: string where
  "K8sBridgeWorker = ''K8S''"

definition K8sSSHWorker :: string where
  "K8sSSHWorker = ''SSH''"

datatype daemonClient = DaemonClient nat

datatype cancelFunc = CancelFunc

text \<open>The struct \<^verbatim>\<open>bridge\<close>; \<^verbatim>\<open>sshPort\<close> is an \<^verbatim>\<open>int32\<close>, on which no arithmetic is done.\<close>

record bridge =
  sshPort :: int
  namespace :: string
  daemon :: daemonClient
  cancel :: "cancelFunc option"

definition newBridge :: "string \<Rightarrow> daemonClient \<Rightarrow> int \<Rightarrow> bridge" where
  "newBridge ns d port = \<lparr>sshPort = port, namespace = ns, daemon = d, cancel = None\<rparr>"

datatype worker = SshWorker | BridgeWorker

datatype tcpConn = TcpConn nat

text \<open>
  What a function of the bridge does to the outside, in the order it does it: log lines,
  the RPC to the daemon, subprocesses, the tasks handed to the group, and the TCP probe.
\<close>

datatype bridge_event =
    Infof string "fmt_arg list"
  | LogErrorf string "fmt_arg list"
  | SetDnsSearchPath daemonClient "string list"
  | Exec string "string list"
  | WithCancel
  | Go string worker
  | DialTimeout string string int
  | ReadLine tcpConn
  | CloseTcp tcpConn

text \<open>
  \<^verbatim>\<open>bridgeWorker\<close>. \<open>rpcErr\<close> is the error returned by the \<^verbatim>\<open>SetDnsSearchPath\<close> RPC and
  \<open>ctxErr\<close> is the value of \<^verbatim>\<open>c.Err()\<close> when the worker reads it, after the RPC has returned.
\<close>

definition bridgeWorker ::
  "bridge \<Rightarrow> error option \<Rightarrow> error option \<Rightarrow> error option \<times> bridge_event list" where
  "bridgeWorker br rpcErr ctxErr =
     (let paths = [namespace br @ ''.svc.cluster.local.'',
                   ''svc.cluster.local.'',
                   ''cluster.local.'',
                   '''']
      in ((case rpcErr of
             None \<Rightarrow> None
           | Some e \<Rightarrow>
               (if ctxErr \<noteq> None then None
                else Some (Errorf ''error setting up search path: %v'' [ArgV e]))),
          [Infof ''kubernetes namespace=%s'' [ArgS (namespace br)],
           Infof ''Setting DNS search path: %s'' [ArgS (paths ! 0)],
           SetDnsSearchPath (daemon br) paths]))"

text \<open>
  \<^verbatim>\<open>sshWorker\<close>. \<open>runErr\<close> is the error returned by \<^verbatim>\<open>ssh.Run()\<close> and \<open>ctxErr\<close> the value of
  \<^verbatim>\<open>c.Err()\<close> read after it.
\<close>

definition sshWorker ::
  "bridge \<Rightarrow> error option \<Rightarrow> error option \<Rightarrow> error option \<times> bridge_event list" where
  "sshWorker br runErr ctxErr =
     ((if runErr \<noteq> None \<and> ctxErr \<noteq> None then None else runErr),
      [Exec ''ssh''
         [''-F'', ''none'',
          ''-C'',
          ''-oConnectTimeout=5'',
          ''-oStrictHostKeyChecking=no'',
          ''-oUserKnownHostsFile=/dev/null'',
          ''-N'',
          ''-oExitOnForwardFailure=yes'',
          ''-D'', ''localhost:1080'',
          ''-p'', Itoa (sshPort br),
          ''telepresence@localhost'']])"

definition kubectlErr :: string where
  "kubectlErr = ''kubectl version 1.10 or greater is required''"

text \<open>The anonymous struct \<^verbatim>\<open>info.ClientVersion\<close> that the JSON output is decoded into.\<close>

record clientVersion =
  Major :: string
  Minor :: string

text \<open>
  \<^verbatim>\<open>checkKubectl\<close>. \<open>output\<close> is what running \<^verbatim>\<open>kubectl version --client -o json\<close> gave (its
  standard output, or the error of the run) and \<open>unmarshal\<close> is \<^verbatim>\<open>json.Unmarshal\<close> into the
  struct above, a parameter of the model.
\<close>

definition checkKubectl ::
  "(error + string) \<Rightarrow> (string \<Rightarrow> error + clientVersion) \<Rightarrow> error option \<times> bridge_event list" where
  "checkKubectl output unmarshal =
     ((case output of
         Inl err \<Rightarrow> Some (Wrap err kubectlErr)
       | Inr out \<Rightarrow>
           (case unmarshal out of
              Inl err \<Rightarrow> Some (Wrap err kubectlErr)
            | Inr info \<Rightarrow>
                (case Atoi (Major info) of
                   Inl err \<Rightarrow> Some (Wrap err kubectlErr)
                 | Inr major \<Rightarrow>
                     (case Atoi (Minor info) of
                        Inl err \<Rightarrow> Some (Wrap err kubectlErr)
                      | Inr minor \<Rightarrow>
                          if major \<noteq> 1 \<or> minor < 10
                          then Some (Errorf ''%s (found %d.%d)''
                                       [ArgS kubectlErr, ArgD major, ArgD minor])
                          else None)))),
      [Exec ''kubectl'' [''version'', ''--client'', ''-o'', ''json'']])"

text \<open>
  \<^verbatim>\<open>start\<close>: the preflight, then the cancellable context and the two tasks given to the group.
  The bridge is returned with its \<^verbatim>\<open>cancel\<close> field as the call leaves it.
\<close>

definition start ::
  "bridge \<Rightarrow> (error + string) \<Rightarrow> (string \<Rightarrow> error + clientVersion)
     \<Rightarrow> bridge \<times> error option \<times> bridge_event list" where
  "start br output unmarshal =
     (case checkKubectl output unmarshal of
        (Some err, evs) \<Rightarrow> (br, Some err, evs)
      | (None, evs) \<Rightarrow>
          (br\<lparr>cancel := Some CancelFunc\<rparr>, None,
           evs @ [WithCancel, Go K8sSSHWorker SshWorker, Go K8sBridgeWorker BridgeWorker]))"

text \<open>
  \<^verbatim>\<open>check\<close>. \<open>dial\<close> is the outcome of \<^verbatim>\<open>net.DialTimeout\<close> and \<open>line\<close> the outcome of the
  \<^verbatim>\<open>ReadLine\<close> on the connection. The deferred \<^verbatim>\<open>conn.Close()\<close> is the last event of every
  path that has a connection.
\<close>

definition check ::
  "bridge \<Rightarrow> (error + tcpConn) \<Rightarrow> (error + string) \<Rightarrow> bool \<times> bridge_event list" where
  "check br dial line =
     (let address = ''localhost:'' @ Itoa (sshPort br);
          dialEv = DialTimeout ''tcp'' address (15 * Second)
      in (case dial of
            Inl err \<Rightarrow>
              (False,
               [dialEv,
                LogErrorf ''fail to establish tcp connection to %s: %v'' [ArgS address, ArgV err]])
          | Inr conn \<Rightarrow>
              (case line of
                 Inl err \<Rightarrow>
                   (False, [dialEv, ReadLine conn, LogErrorf ''tcp read: %v'' [ArgV err], CloseTcp conn])
               | Inr msg \<Rightarrow>
                   if \<not> Contains msg ''SSH''
                   then (False,
                         [dialEv, ReadLine conn,
                          LogErrorf ''expected SSH prompt, got: %v'' [ArgS msg], CloseTcp conn])
                   else (True, [dialEv, ReadLine conn, CloseTcp conn]))))"

text \<open>Projections of a trace: the search paths sent to the daemon, the tasks given to the
  group, and the error lines logged.\<close>

definition dnsCalls :: "bridge_event list \<Rightarrow> string list list" where
  "dnsCalls evs = [ps. SetDnsSearchPath d ps \<leftarrow> evs]"

definition spawned :: "bridge_event list \<Rightarrow> (string \<times> worker) list" where
  "spawned evs = [(n, w). Go n w \<leftarrow> evs]"

definition logged :: "bridge_event list \<Rightarrow> (string \<times> fmt_arg list) list" where
  "logged evs = [(f, as). LogErrorf f as \<leftarrow> evs]"

section \<open>The daemon state (\<^verbatim>\<open>pkg/client/cli/daemon_state.go\<close>)\<close>

datatype clientConn = ClientConn nat

text \<open>\<^verbatim>\<open>daemon.NewDaemonClient\<close>: the RPC client built on a connection.\<close>

fun NewDaemonClient :: "clientConn \<Rightarrow> daemonClient" where
  "NewDaemonClient (ClientConn n) = DaemonClient n"

text \<open>The two contexts the file passes on: \<^verbatim>\<open>context.Background()\<close>, which is never
  cancelled, and the context of the command, \<^verbatim>\<open>ds.cmd.Context()\<close>.\<close>

datatype goContext = Background | CommandContext

text \<open>
  The struct \<^verbatim>\<open>daemonState\<close>. Of the embedded \<^verbatim>\<open>sessionInfo\<close> the file uses the command's
  output stream and context only; what is written to the stream is an event below.
\<close>

record daemonState =
  conn :: "clientConn option"
  grpc :: "daemonClient option"

definition nl :: string where
  "nl = [CHR 0x0A]"

definition legacySocketName :: string where
  "legacySocketName = ''/var/run/edgectl.socket''"

definition legacyQuitRequest :: string where
  "legacyQuitRequest =
     ''{'' @ [CHR 0x22] @ ''Args'' @ [CHR 0x22] @ '': ['' @ [CHR 0x22] @ ''edgectl'' @ [CHR 0x22] @
     '', '' @ [CHR 0x22] @ ''quit'' @ [CHR 0x22] @ ''], '' @ [CHR 0x22] @ ''APIVersion'' @ [CHR 0x22] @
     '': 1}''"

text \<open>What a function of the file does to the outside, in the order it does it.\<close>

datatype cli_event =
    Fprint string
  | QuitRPC daemonClient goContext
  | CloseClientConn clientConn
  | WaitUntilSocketVanishes string string int
  | WaitUntilSocketAppears string string int
  | RunAsRoot string "string list"
  | DialSocket goContext string
  | LegacyDial string string
  | LegacyWrite string
  | LegacyClose

text \<open>
  What is outside the file: the constants and variables of the packages \<^verbatim>\<open>client\<close> and \<^verbatim>\<open>cli\<close>
  that it reads, and the answers of the calls it makes. \<^verbatim>\<open>client.SocketExists\<close> is the state
  of the file system when asked; \<open>legacyDial\<close> is the outcome of \<^verbatim>\<open>net.Dial\<close> on the legacy
  socket, with the lines that the legacy daemon sends before it closes the connection;
  \<open>dialSocket\<close> is the outcome of \<^verbatim>\<open>client.DialSocket\<close>, which gives a connection or an error
  (and then a nil connection).
\<close>

record cli_env =
  DaemonSocketName :: string
  Logfile :: string
  DisplayVersion :: string
  GetExe :: string
  dnsIP :: string
  fallbackIP :: string
  errDaemonIsNotRunning :: error
  SocketExists :: "string \<Rightarrow> bool"
  quitResult :: "error option"
  waitVanishes :: "error option"
  legacyDial :: "error + string list"
  runAsRootResult :: "error option"
  waitAppears :: "error option"
  dialSocket :: "error + clientConn"

definition assertDaemonStarted :: "cli_env \<Rightarrow> error option" where
  "assertDaemonStarted env =
     (if SocketExists env (DaemonSocketName env) then None
      else Some (errDaemonIsNotRunning env))"

definition isConnected :: "daemonState \<Rightarrow> bool" where
  "isConnected ds = (conn ds \<noteq> None)"

definition connect :: "cli_env \<Rightarrow> daemonState \<Rightarrow> daemonState \<times> error option \<times> cli_event list" where
  "connect env ds =
     (case dialSocket env of
        Inr c \<Rightarrow>
          (ds\<lparr>conn := Some c, grpc := Some (NewDaemonClient c)\<rparr>, None,
           [DialSocket CommandContext (DaemonSocketName env)])
      | Inl err \<Rightarrow>
          (ds\<lparr>conn := None\<rparr>, Some err, [DialSocket CommandContext (DaemonSocketName env)]))"

definition disconnect :: "daemonState \<Rightarrow> daemonState \<times> cli_event list" where
  "disconnect ds =
     (ds\<lparr>conn := None, grpc := None\<rparr>,
      (case conn ds of None \<Rightarrow> [] | Some c \<Rightarrow> [CloseClientConn c]))"

definition newDaemonState :: "cli_env \<Rightarrow> daemonState \<times> error option \<times> cli_event list" where
  "newDaemonState env =
     (let ds = \<lparr>conn = None, grpc = None\<rparr>
      in (case assertDaemonStarted env of
            None \<Rightarrow> connect env ds
          | Some err \<Rightarrow> (ds, Some err, [])))"

text \<open>\<^verbatim>\<open>quitLegacyDaemon\<close>: the scanner loop relays each line of the answer.\<close>

definition quitLegacyDaemon :: "cli_env \<Rightarrow> cli_event list" where
  "quitLegacyDaemon env =
     (if \<not> SocketExists env legacySocketName then []
      else (case legacyDial env of
              Inl err \<Rightarrow> [LegacyDial ''unix'' legacySocketName]
            | Inr lines \<Rightarrow>
                [LegacyDial ''unix'' legacySocketName, LegacyWrite legacyQuitRequest] @
                map (\<lambda>l. Fprint (''Legacy daemon: '' @ l @ nl)) lines @
                [LegacyClose]))"

definition EnsureState ::
  "cli_env \<Rightarrow> daemonState \<Rightarrow> daemonState \<times> (bool \<times> error option) \<times> cli_event list" where
  "EnsureState env ds =
     (if isConnected ds then (ds, (False, None), [])
      else
        let ev1 = quitLegacyDaemon env @
                  [Fprint (''Launching Telepresence Daemon '' @ DisplayVersion env @ nl),
                   RunAsRoot (GetExe env) [''daemon-foreground'', dnsIP env, fallbackIP env]]
        in (case runAsRootResult env of
              Some err \<Rightarrow> (ds, (False, Some (Wrap err ''failed to launch the server'')), ev1)
            | None \<Rightarrow>
                let ev2 = ev1 @ [WaitUntilSocketAppears ''daemon'' (DaemonSocketName env) (10 * Second)]
                in (case waitAppears env of
                      Some err \<Rightarrow>
                        (ds,
                         (False,
                          Some (Errorf ''daemon service did not start (see %s for more info)''
                                  [ArgS (Logfile env)])),
                         ev2)
                    | None \<Rightarrow>
                        (case connect env ds of
                           (ds', err, ev3) \<Rightarrow> (ds', (err = None, err), ev2 @ ev3)))))"

text \<open>
  \<^verbatim>\<open>DeactivateState\<close>. The result is \<open>None\<close> when the call panics: \<^verbatim>\<open>ds.grpc.Quit\<close> on a nil
  \<^verbatim>\<open>ds.grpc\<close>, which needs a state with a connection and no client.
\<close>

definition DeactivateState ::
  "cli_env \<Rightarrow> daemonState \<Rightarrow> (daemonState \<times> error option \<times> cli_event list) option" where
  "DeactivateState env ds =
     (if \<not> isConnected ds then Some (ds, None, [])
      else
        let ev1 = [Fprint ''Telepresence Daemon quitting...''];
            quit = (if SocketExists env (DaemonSocketName env)
                    then (case grpc ds of
                            None \<Rightarrow> None
                          | Some g \<Rightarrow> Some (quitResult env, [QuitRPC g Background]))
                    else Some (None, []))
        in (case quit of
              None \<Rightarrow> None
            | Some (err, ev2) \<Rightarrow>
                (case disconnect ds of
                   (ds', ev3) \<Rightarrow>
                     let (err', ev4) =
                           (if err = None
                            then (waitVanishes env,
                                  [WaitUntilSocketVanishes ''daemon'' (DaemonSocketName env) (5 * Second)])
                            else (err, []));
                         ev5 = (if err' = None then [Fprint (''done'' @ nl)] else [Fprint nl])
                     in Some (ds', err', ev1 @ ev2 @ ev3 @ ev4 @ ev5))))"

text \<open>
  The states the file can build: a client is there exactly when a connection is.
  \<^verbatim>\<open>newDaemonState\<close> starts in such a state and every function keeps it.
\<close>

definition wellFormed :: "daemonState \<Rightarrow> bool" where
  "wellFormed ds = ((conn ds = None) = (grpc ds = None))"

text \<open>Projections of a trace: the Quit calls and the waits for the socket to vanish.\<close>

definition quitCalls :: "cli_event list \<Rightarrow> (daemonClient \<times> goContext) list" where
  "quitCalls evs = [(g, c). QuitRPC g c \<leftarrow> evs]"

definition vanishWaits :: "cli_event list \<Rightarrow> (string \<times> string \<times> int) list" where
  "vanishWaits evs = [(n, p, t). WaitUntilSocketVanishes n p t \<leftarrow> evs]"

text \<open>Concrete runs: an outside where every call succeeds and a legacy daemon answers one
  line, and three variants of it: the Quit call fails, the sockets are gone, the daemon
  socket never appears.\<close>

definition connectedState :: daemonState where
  "connectedState = \<lparr>conn = Some (ClientConn 1), grpc = Some (DaemonClient 1)\<rparr>"

definition exampleEnv :: cli_env where
  "exampleEnv =
     \<lparr>DaemonSocketName = ''/var/run/telepresence-daemon.socket'',
      Logfile = ''/tmp/telepresence.log'',
      DisplayVersion = ''v2.0.0'',
      GetExe = ''/usr/local/bin/telepresence'',
      dnsIP = '''',
      fallbackIP = '''',
      errDaemonIsNotRunning = External ''the telepresence daemon has not been started'',
      SocketExists = (\<lambda>name. True),
      quitResult = None,
      waitVanishes = None,
      legacyDial = Inr [''Edge Control Daemon quitting...''],
      runAsRootResult = None,
      waitAppears = None,
      dialSocket = Inr (ClientConn 1)\<rparr>"

definition quitFailsEnv :: cli_env where
  "quitFailsEnv = exampleEnv\<lparr>quitResult := Some (External ''rpc error: code = Unavailable'')\<rparr>"

definition socketGoneEnv :: cli_env where
  "socketGoneEnv = exampleEnv\<lparr>SocketExists := (\<lambda>name. False)\<rparr>"

definition neverAppearsEnv :: cli_env where
  "neverAppearsEnv = exampleEnv\<lparr>waitAppears := Some (External ''timeout'')\<rparr>"

section \<open>Workload injection (tests in \<^verbatim>\<open>pkg/client/connector\<close>)\<close>

text \<open>
  The cluster objects, with the fields that the tests and the injection touch: the object
  metadata, the containers of the pod template, and the target port of the service.
\<close>

record containerPort =
  PortName :: string
  ContainerPort :: int

record container =
  Name :: string
  Image :: string
  Ports :: "containerPort list"
  Env :: "(string \<times> string) list"
  TerminationMessagePath :: string
  TerminationMessagePolicy :: string
  ImagePullPolicy :: string

text \<open>\<^verbatim>\<open>CreationTimestamp\<close> is a \<^verbatim>\<open>metav1.Time\<close>; the zero time \<^verbatim>\<open>metav1.Time{}\<close> is 0.\<close>

record objectMeta =
  ResourceVersion :: string
  Generation :: int
  CreationTimestamp :: int
  Annotations :: "string \<rightharpoonup> string"

datatype workloadKind = Deployment | ReplicaSet | StatefulSet

record workload =
  Kind :: workloadKind
  ObjectMeta :: objectMeta
  Containers :: "container list"

record service =
  SvcObjectMeta :: objectMeta
  TargetPort :: int

text \<open>
  \<^verbatim>\<open>sanitizeWorkload\<close> and \<^verbatim>\<open>sanitizeService\<close> of the test file: the fields left out of the
  comparison. The pod template that \<^verbatim>\<open>GetPodTemplateFromObject\<close> returns for the three kinds
  is the field \<open>Containers\<close>.
\<close>

definition sanitizeContainer :: "container \<Rightarrow> container" where
  "sanitizeContainer c =
     c\<lparr>TerminationMessagePath := '''', TerminationMessagePolicy := '''', ImagePullPolicy := ''''\<rparr>"

definition sanitizeMeta :: "objectMeta \<Rightarrow> objectMeta" where
  "sanitizeMeta m = m\<lparr>ResourceVersion := '''', Generation := 0, CreationTimestamp := 0\<rparr>"

definition sanitizeWorkload :: "workload \<Rightarrow> workload" where
  "sanitizeWorkload obj =
     obj\<lparr>ObjectMeta := sanitizeMeta (ObjectMeta obj),
         Containers := map sanitizeContainer (Containers obj)\<rparr>"

definition sanitizeService :: "service \<Rightarrow> service" where
  "sanitizeService svc = svc\<lparr>SvcObjectMeta := sanitizeMeta (SvcObjectMeta svc)\<rparr>"

text \<open>
  Modelled from the spec: the conventions of the injection engine, which the spec names
  without giving their values (the engine is not in the sources): the fixed name of the
  sidecar container, the port the sidecar listens on, the environment variable that tells
  the sidecar which port to proxy to, and the well-known annotation. They are parameters of
  the model.
\<close>

record conventions =
  agentContainerName :: string
  agentPort :: int
  appPortVariable :: string
  annotationKey :: string

text \<open>
  Modelled from the spec: the failures of the injection engine, which is not in the sources:
  the one "ambiguous / port not found" error of the port resolution, the inconsistent state
  of a sidecar without its annotation, and an annotation whose value cannot be read back.
\<close>

datatype injectError =
    PortNotFound
  | AnnotationMissing
  | AnnotationUnreadable error

text \<open>
  Modelled from the spec: the detection of the sidecar, which is not in the sources. The
  sidecar is present when a container of the pod template has the conventional name.
\<close>

definition hasAgent :: "conventions \<Rightarrow> workload \<Rightarrow> bool" where
  "hasAgent cv obj = list_ex (\<lambda>c. Name c = agentContainerName cv) (Containers obj)"

text \<open>
  Modelled from the spec: when a container port matches, in the port resolution of
  \<^verbatim>\<open>addAgentToWorkload\<close>, which is not in the sources. A port matches when its name is
  \<open>portName\<close> or, for an empty \<open>portName\<close>, when its number is the target port of the
  service.
\<close>

definition portMatches :: "string \<Rightarrow> service option \<Rightarrow> containerPort \<Rightarrow> bool" where
  "portMatches portName svc p =
     (if portName \<noteq> [] then PortName p = portName
      else (case svc of None \<Rightarrow> False | Some s \<Rightarrow> ContainerPort p = TargetPort s))"

text \<open>
  Modelled from the spec: the port resolution of \<^verbatim>\<open>addAgentToWorkload\<close>, which is not in the
  sources. The candidates are the containers of the pod template with a matching port;
  exactly one candidate is required, and zero or several give the one
  "ambiguous / port not found" error.
\<close>

definition findMatchingPort ::
  "string \<Rightarrow> service option \<Rightarrow> container list \<Rightarrow> injectError + container \<times> containerPort" where
  "findMatchingPort portName svc cns =
     (case filter (\<lambda>c. list_ex (portMatches portName svc) (Ports c)) cns of
        [c] \<Rightarrow>
          (case find (portMatches portName svc) (Ports c) of
             Some p \<Rightarrow> Inr (c, p)
           | None \<Rightarrow> Inl PortNotFound)
      | _ \<Rightarrow> Inl PortNotFound)"

text \<open>
  Modelled from the spec: the sidecar container, which is not in the sources. It has the
  conventional name, runs the agent image, listens on the agent port and is told the port of
  the original container that it proxies to.
\<close>

definition agentContainer :: "conventions \<Rightarrow> string \<Rightarrow> containerPort \<Rightarrow> container" where
  "agentContainer cv agentImage appPort =
     \<lparr>Name = agentContainerName cv,
      Image = agentImage,
      Ports = [\<lparr>PortName = '''', ContainerPort = agentPort cv\<rparr>],
      Env = [(appPortVariable cv, Itoa (ContainerPort appPort))],
      TerminationMessagePath = '''',
      TerminationMessagePolicy = '''',
      ImagePullPolicy = ''''\<rparr>"

text \<open>
  Modelled from the spec: writing the well-known annotation on an object, which is not in
  the sources.
\<close>

definition setAnnotation :: "string \<Rightarrow> string \<Rightarrow> objectMeta \<Rightarrow> objectMeta" where
  "setAnnotation k v m = m\<lparr>Annotations := (Annotations m)(k \<mapsto> v)\<rparr>"

text \<open>
  Modelled from the spec: removing the well-known annotation from an object, which is not in
  the sources.
\<close>

definition deleteAnnotation :: "string \<Rightarrow> objectMeta \<Rightarrow> objectMeta" where
  "deleteAnnotation k m = m\<lparr>Annotations := (Annotations m)(k := None)\<rparr>"

text \<open>
  Modelled from the spec: \<^verbatim>\<open>addAgentToWorkload\<close>, which is not in the sources (the test file
  calls it). Following the contract of the spec, in its order:
  \<^item> if the sidecar is already present, nothing is changed and the inputs are returned;
  \<^item> the container and port are located, or the call fails;
  \<^item> on a copy, the sidecar is appended to the containers, the target port of the service is
    rewritten to the port the sidecar listens on, and the original target port is recorded
    in the well-known annotation of the workload (for a nil service, the port of the located
    container, which is what the sidecar proxies to);
  \<^item> the mutated workload is returned, with the mutated service, or with nil when the
    service was nil and so needed no change.

  The test file calls \<^verbatim>\<open>undoServiceMods\<close> with the service alone, so the record that
  \<^verbatim>\<open>undoServiceMods\<close> restores from has to travel with the service: the rewritten service
  carries the same annotation.
\<close>

definition addAgentToWorkload ::
  "conventions \<Rightarrow> string \<Rightarrow> string \<Rightarrow> workload \<Rightarrow> service option
     \<Rightarrow> injectError + workload \<times> service option" where
  "addAgentToWorkload cv portName agentImage obj svc =
     (if hasAgent cv obj then Inr (obj, svc)
      else
        (case findMatchingPort portName svc (Containers obj) of
           Inl err \<Rightarrow> Inl err
         | Inr (c, p) \<Rightarrow>
             let original = (case svc of None \<Rightarrow> ContainerPort p | Some s \<Rightarrow> TargetPort s);
                 obj' = obj\<lparr>Containers := Containers obj @ [agentContainer cv agentImage p],
                            ObjectMeta :=
                              setAnnotation (annotationKey cv) (Itoa original) (ObjectMeta obj)\<rparr>;
                 svc' = (case svc of
                           None \<Rightarrow> None
                         | Some s \<Rightarrow>
                             Some (s\<lparr>TargetPort := agentPort cv,
                                     SvcObjectMeta :=
                                       setAnnotation (annotationKey cv) (Itoa (TargetPort s))
                                         (SvcObjectMeta s)\<rparr>))
             in Inr (obj', svc')))"

text \<open>
  Modelled from the spec: \<^verbatim>\<open>undoObjectMods\<close>, which is not in the sources. Without a sidecar
  it changes nothing; with a sidecar and without the annotation it fails; otherwise it
  removes the sidecar container and the annotation.
\<close>

definition undoObjectMods :: "conventions \<Rightarrow> workload \<Rightarrow> injectError + workload" where
  "undoObjectMods cv obj =
     (if \<not> hasAgent cv obj then Inr obj
      else (case Annotations (ObjectMeta obj) (annotationKey cv) of
              None \<Rightarrow> Inl AnnotationMissing
            | Some v \<Rightarrow>
                Inr (obj\<lparr>Containers :=
                           filter (\<lambda>c. Name c \<noteq> agentContainerName cv) (Containers obj),
                         ObjectMeta := deleteAnnotation (annotationKey cv) (ObjectMeta obj)\<rparr>)))"

text \<open>
  Modelled from the spec: \<^verbatim>\<open>undoServiceMods\<close>, which is not in the sources. Without the
  annotation it changes nothing; otherwise it restores the target port from the value
  recorded in the annotation, and removes the annotation.
\<close>

definition undoServiceMods :: "conventions \<Rightarrow> service \<Rightarrow> injectError + service" where
  "undoServiceMods cv svc =
     (case Annotations (SvcObjectMeta svc) (annotationKey cv) of
        None \<Rightarrow> Inr svc
      | Some v \<Rightarrow>
          (case Atoi v of
             Inl err \<Rightarrow> Inl (AnnotationUnreadable err)
           | Inr port \<Rightarrow>
               Inr (svc\<lparr>TargetPort := port,
                        SvcObjectMeta := deleteAnnotation (annotationKey cv) (SvcObjectMeta svc)\<rparr>)))"

text \<open>
  The inputs of an injection: a workload that has not been injected (no sidecar container,
  no annotation of the engine) and, when there is a service, one without the annotation and
  with a target port that is an \<^verbatim>\<open>int32\<close>, as its Go type has it.
\<close>

definition pristine :: "conventions \<Rightarrow> workload \<Rightarrow> service option \<Rightarrow> bool" where
  "pristine cv obj svc =
     (\<not> hasAgent cv obj \<and>
      Annotations (ObjectMeta obj) (annotationKey cv) = None \<and>
      (case svc of
         None \<Rightarrow> True
       | Some s \<Rightarrow>
           Annotations (SvcObjectMeta s) (annotationKey cv) = None \<and>
           - (2 ^ 31) \<le> TargetPort s \<and> TargetPort s < 2 ^ 31))"

text \<open>The scenario of the spec: a Deployment with one container \<open>app\<close> that exposes port
  8080 under the name \<open>http\<close>, and a service that targets this port.\<close>

definition exampleConventions :: conventions where
  "exampleConventions =
     \<lparr>agentContainerName = ''traffic-agent'', agentPort = 9900, appPortVariable = ''APP_PORT'',
      annotationKey = ''telepresence.getambassador.io/actions''\<rparr>"

definition exampleMeta :: objectMeta where
  "exampleMeta =
     \<lparr>ResourceVersion = ''41'', Generation = 1, CreationTimestamp = 1612137600,
      Annotations = Map.empty\<rparr>"

definition exampleDeployment :: workload where
  "exampleDeployment =
     \<lparr>Kind = Deployment,
      ObjectMeta = exampleMeta,
      Containers =
        [\<lparr>Name = ''app'', Image = ''app:1.0'',
          Ports = [\<lparr>PortName = ''http'', ContainerPort = 8080\<rparr>],
          Env = [],
          TerminationMessagePath = ''/dev/termination-log'',
          TerminationMessagePolicy = ''File'',
          ImagePullPolicy = ''IfNotPresent''\<rparr>]\<rparr>"

definition exampleService :: service where
  "exampleService = \<lparr>SvcObjectMeta = exampleMeta, TargetPort = 8080\<rparr>"

section \<open>\<^verbatim>\<open>Itoa\<close> and \<^verbatim>\<open>Atoi\<close> are inverse on the 64-bit integers\<close>

lemma digitChar_digit: "d < 10 \<Longrightarrow> isDigit (digitChar d) \<and> digitVal (digitChar d) = d"
  by (simp add: isDigit_def digitVal_def digitChar_def)

lemma formatBits_acc: "formatBits u acc = formatBits u [] @ acc"
proof (induction u arbitrary: acc rule: less_induct)
  case (less u)
  show ?case
  proof (cases "10 \<le> u")
    case True
    then have lt: "u div 10 < u" by simp
    have "formatBits u acc = formatBits (u div 10) (digitChar (u mod 10) # acc)"
      using True by (simp add: formatBits.simps [of u acc])
    also have "\<dots> = formatBits (u div 10) [] @ digitChar (u mod 10) # acc"
      using less.IH [OF lt] .
    also have "\<dots> = (formatBits (u div 10) [] @ [digitChar (u mod 10)]) @ acc"
      by simp
    also have "formatBits (u div 10) [] @ [digitChar (u mod 10)] =
        formatBits (u div 10) [digitChar (u mod 10)]"
      using less.IH [OF lt, of "[digitChar (u mod 10)]"] by simp
    also have "formatBits (u div 10) [digitChar (u mod 10)] = formatBits u []"
      using True by (simp add: formatBits.simps [of u "[]"])
    finally show ?thesis .
  next
    case False
    then show ?thesis by (simp add: formatBits.simps [of u])
  qed
qed

lemma formatBits_step:
  "10 \<le> u \<Longrightarrow> formatBits u [] = formatBits (u div 10) [] @ [digitChar (u mod 10)]"
  using formatBits_acc [of "u div 10" "[digitChar (u mod 10)]"]
  by (simp add: formatBits.simps [of u "[]"])

lemma formatBits_small: "u < 10 \<Longrightarrow> formatBits u [] = [digitChar u]"
  by (simp add: formatBits.simps [of u "[]"])

lemma formatBits_digits: "formatBits u [] \<noteq> [] \<and> list_all isDigit (formatBits u [])"
proof (induction u rule: less_induct)
  case (less u)
  show ?case
  proof (cases "10 \<le> u")
    case True
    then have "u div 10 < u" by simp
    from less.IH [OF this] True show ?thesis
      by (simp add: formatBits_step digitChar_digit)
  next
    case False
    then show ?thesis by (simp add: formatBits_small digitChar_digit)
  qed
qed

lemma parseDigits_snoc:
  "d < 10 \<Longrightarrow> parseDigits n (xs @ [digitChar d]) =
     (case parseDigits n xs of
        Inl e \<Rightarrow> Inl e
      | Inr m \<Rightarrow> if maxUint64 < m * 10 + d then Inl ErrRange else Inr (m * 10 + d))"
  by (induction xs arbitrary: n) (simp_all add: digitChar_digit)

lemma parseDigits_formatBits:
  "u \<le> maxUint64 \<Longrightarrow> parseDigits 0 (formatBits u []) = Inr u"
proof (induction u rule: less_induct)
  case (less u)
  show ?case
  proof (cases "10 \<le> u")
    case True
    then have lt: "u div 10 < u" by simp
    from less.prems have "u div 10 \<le> maxUint64" by simp
    from less.IH [OF lt this] True less.prems show ?thesis
      by (simp add: formatBits_step parseDigits_snoc)
  next
    case False
    with less.prems show ?thesis
      by (simp add: formatBits_small digitChar_digit)
  qed
qed

lemma isDigit_not_sign: "isDigit c \<Longrightarrow> c \<noteq> CHR ''+'' \<and> c \<noteq> CHR ''-''"
  by (auto simp: isDigit_def)

lemma Atoi_Itoa:
  assumes "- (2 ^ 63) \<le> i" and "i < 2 ^ 63"
  shows "Atoi (Itoa i) = Inr i"
proof (cases "i < 0")
  case True
  let ?u = "nat (- i)"
  have fb: "formatBits ?u [] \<noteq> []" using formatBits_digits by blast
  from assms True have le: "?u \<le> 2 ^ 63" by (simp add: nat_le_iff)
  then have u: "?u \<le> maxUint64" by (simp add: maxUint64_def)
  from True have "Atoi (Itoa i) = Atoi (CHR ''-'' # formatBits ?u [])"
    by (simp add: Itoa_def)
  also have "\<dots> = Inr (- int ?u)"
    using fb parseDigits_formatBits [OF u] le
    by (simp add: Atoi_def)
  finally show ?thesis using True by simp
next
  case False
  let ?u = "nat i"
  have fb: "formatBits ?u [] \<noteq> []" "list_all isDigit (formatBits ?u [])"
    using formatBits_digits by blast+
  then have "isDigit (hd (formatBits ?u []))"
    by (cases "formatBits ?u []") auto
  then have hd: "hd (formatBits ?u []) \<noteq> CHR ''+''" "hd (formatBits ?u []) \<noteq> CHR ''-''"
    using isDigit_not_sign by blast+
  from assms False have lt: "?u < 2 ^ 63" by (simp add: nat_less_iff)
  then have u: "?u \<le> maxUint64" by (simp add: maxUint64_def)
  from False have "Atoi (Itoa i) = Atoi (formatBits ?u [])"
    by (simp add: Itoa_def)
  also have "\<dots> = Inr (int ?u)"
    using fb(1) hd parseDigits_formatBits [OF u] lt
    by (simp add: Atoi_def)
  finally show ?thesis using False by simp
qed

section \<open>Properties of the standard-library models\<close>

lemma HasPrefix_iff: "HasPrefix s p \<longleftrightarrow> (\<exists>q. s = p @ q)"
  by (induction s p rule: HasPrefix.induct) auto

lemma Contains_iff: "Contains s sub \<longleftrightarrow> (\<exists>p q. s = p @ sub @ q)"
proof (induction s)
  case Nil
  show ?case by auto
next
  case (Cons c cs)
  show ?case
  proof
    assume "Contains (c # cs) sub"
    then consider "HasPrefix (c # cs) sub" | "Contains cs sub" by auto
    then show "\<exists>p q. c # cs = p @ sub @ q"
    proof cases
      case 1
      then obtain q where "c # cs = sub @ q" using HasPrefix_iff by blast
      then have "c # cs = [] @ sub @ q" by simp
      then show ?thesis by blast
    next
      case 2
      then obtain p q where "cs = p @ sub @ q" using Cons.IH by blast
      then have "c # cs = (c # p) @ sub @ q" by simp
      then show ?thesis by blast
    qed
  next
    assume "\<exists>p q. c # cs = p @ sub @ q"
    then obtain p q where pq: "c # cs = p @ sub @ q" by blast
    show "Contains (c # cs) sub"
    proof (cases p)
      case Nil
      with pq have "HasPrefix (c # cs) sub" using HasPrefix_iff by auto
      then show ?thesis by simp
    next
      case (Cons a p')
      with pq have "cs = p' @ sub @ q" by simp
      then have "Contains cs sub" using Cons.IH by blast
      then show ?thesis by simp
    qed
  qed
qed

lemma parseDigits_Inr_digits: "parseDigits n s = Inr m \<Longrightarrow> list_all isDigit s"
  by (induction s arbitrary: n) (auto split: if_splits)

lemma parseDigits_nondigit: "\<not> list_all isDigit s \<Longrightarrow> \<exists>e. parseDigits n s = Inl e"
  using parseDigits_Inr_digits by (cases "parseDigits n s") auto

lemma Atoi_Inr_shape:
  assumes "Atoi s = Inr i"
  shows "\<exists>body. (s = body \<or> s = CHR ''+'' # body \<or> s = CHR ''-'' # body) \<and>
           body \<noteq> [] \<and> list_all isDigit body"
proof -
  from assms have ne: "s \<noteq> []" by (auto simp: Atoi_def)
  define body where "body = (if hd s = CHR ''+'' \<or> hd s = CHR ''-'' then tl s else s)"
  from assms ne have b: "body \<noteq> []"
    by (auto simp: Atoi_def Let_def body_def split: if_splits)
  from assms ne b obtain un where "parseDigits 0 body = Inr un"
    by (auto simp: Atoi_def Let_def body_def split: if_splits sum.splits)
  then have "list_all isDigit body" by (rule parseDigits_Inr_digits)
  moreover from ne have "s = body \<or> s = CHR ''+'' # body \<or> s = CHR ''-'' # body"
    by (cases s) (auto simp: body_def)
  ultimately show ?thesis using b by blast
qed

lemma Atoi_nonneg_shape:
  assumes "Atoi s = Inr i" and "0 < i"
  shows "\<exists>body. (s = body \<or> s = CHR ''+'' # body) \<and> body \<noteq> [] \<and> list_all isDigit body"
proof -
  from assms(1) obtain body where
    b: "s = body \<or> s = CHR ''+'' # body \<or> s = CHR ''-'' # body"
       "body \<noteq> []" "list_all isDigit body"
    using Atoi_Inr_shape by blast
  have "s \<noteq> CHR ''-'' # body"
  proof
    assume m: "s = CHR ''-'' # body"
    with assms(1) have "i \<le> 0"
      by (auto simp: Atoi_def Let_def split: if_splits sum.splits)
    with assms(2) show False by simp
  qed
  with b show ?thesis by blast
qed

lemma Atoi_trailing_plus: "\<exists>e. Atoi (s @ ''+'') = Inl e"
proof (cases "Atoi (s @ ''+'')")
  case (Inl e)
  then show ?thesis by blast
next
  case (Inr i)
  then obtain body where
    b: "s @ ''+'' = body \<or> s @ ''+'' = CHR ''+'' # body \<or> s @ ''+'' = CHR ''-'' # body"
       "body \<noteq> []" "list_all isDigit body"
    using Atoi_Inr_shape by blast
  from b(2) have "last (s @ ''+'') = last body"
    using b(1) by (metis last_ConsR)
  then have "last body = CHR ''+''" by simp
  moreover from b(2,3) have "isDigit (last body)"
    by (simp add: list_all_iff)
  ultimately show ?thesis by (simp add: isDigit_def)
qed

section \<open>The bridge\<close>

lemma checkKubectl_ok_iff:
  "fst (checkKubectl output unmarshal) = None \<longleftrightarrow>
     (\<exists>out info minor. output = Inr out \<and> unmarshal out = Inr info \<and>
        Atoi (Major info) = Inr 1 \<and> Atoi (Minor info) = Inr minor \<and> 10 \<le> minor)"
  by (auto simp: checkKubectl_def split: sum.splits)

text \<open>
  C5. Whatever the namespace (and whatever the RPC and the context then answer), the DNS
  task sends the daemon one \<^verbatim>\<open>SetDnsSearchPath\<close> call, and its argument is the four-element
  list \<open>namespace + ".svc.cluster.local."\<close>, \<open>"svc.cluster.local."\<close>, \<open>"cluster.local."\<close>,
  \<open>""\<close>, in this order.
\<close>

theorem bridgeWorker_search_path:
  "dnsCalls (snd (bridgeWorker br rpcErr ctxErr)) =
     [ [namespace br @ ''.svc.cluster.local.'', ''svc.cluster.local.'', ''cluster.local.'', ''''] ]"
  by (simp add: bridgeWorker_def dnsCalls_def Let_def)

theorem bridgeWorker_search_path_witness:
  "dnsCalls (snd (bridgeWorker (newBridge ''ambassador'' (DaemonClient 0) 2022) None None)) =
     [ [''ambassador.svc.cluster.local.'', ''svc.cluster.local.'', ''cluster.local.'', ''''] ]"
  using bridgeWorker_search_path [of "newBridge ''ambassador'' (DaemonClient 0) 2022" None None]
  by (simp add: newBridge_def)

text \<open>
  C4. When the task's context is cancelled at the time the worker looks at it, neither worker
  reports an error, whatever the RPC or the ssh subprocess returned; when it is not cancelled,
  a failure of the RPC is reported (wrapped by the DNS task) and a failure of ssh is reported
  as it is.
\<close>

theorem workers_suppress_cancellation:
  "(ctxErr \<noteq> None \<longrightarrow>
      fst (bridgeWorker br rpcErr ctxErr) = None \<and> fst (sshWorker br runErr ctxErr) = None) \<and>
   (ctxErr = None \<longrightarrow>
      fst (bridgeWorker br (Some e) ctxErr) =
        Some (Errorf ''error setting up search path: %v'' [ArgV e]) \<and>
      fst (sshWorker br (Some e) ctxErr) = Some e)"
  by (auto simp: bridgeWorker_def sshWorker_def Let_def split: option.splits)

theorem workers_suppress_cancellation_witness:
  "fst (bridgeWorker (newBridge ''default'' (DaemonClient 0) 2022)
          (Some (External ''rpc error: code = Canceled'')) (Some (External ''context canceled''))) = None \<and>
   fst (sshWorker (newBridge ''default'' (DaemonClient 0) 2022)
          (Some (External ''signal: killed'')) (Some (External ''context canceled''))) = None \<and>
   fst (bridgeWorker (newBridge ''default'' (DaemonClient 0) 2022)
          (Some (External ''exit status 255'')) None) =
     Some (Errorf ''error setting up search path: %v'' [ArgV (External ''exit status 255'')]) \<and>
   fst (sshWorker (newBridge ''default'' (DaemonClient 0) 2022)
          (Some (External ''exit status 255'')) None) = Some (External ''exit status 255'')"
  using workers_suppress_cancellation
          [of "Some (External ''context canceled'')" "newBridge ''default'' (DaemonClient 0) 2022"
              "Some (External ''rpc error: code = Canceled'')" "Some (External ''signal: killed'')"]
        workers_suppress_cancellation
          [of None "newBridge ''default'' (DaemonClient 0) 2022" _ _ "External ''exit status 255''"]
  by simp

text \<open>
  C6. \<^verbatim>\<open>start\<close> runs the \<^verbatim>\<open>kubectl version\<close> command first. It returns no error exactly when
  the command ran, its output was decoded, and \<^verbatim>\<open>Major\<close> parses to 1 and \<^verbatim>\<open>Minor\<close> to a number
  that is at least 10; only then are the two tasks given to the group, after the preflight,
  the ssh task first. In every other case (the command failed, the output or one of the two
  fields did not parse, the version is too old) an error is returned, no task is spawned and
  the bridge is left as it was.
\<close>

theorem start_preflight:
  "snd (snd (start br output unmarshal)) =
     Exec ''kubectl'' [''version'', ''--client'', ''-o'', ''json''] #
       (if fst (snd (start br output unmarshal)) = None
        then [WithCancel, Go K8sSSHWorker SshWorker, Go K8sBridgeWorker BridgeWorker]
        else []) \<and>
   (fst (snd (start br output unmarshal)) = None \<longleftrightarrow>
     (\<exists>out info minor. output = Inr out \<and> unmarshal out = Inr info \<and>
        Atoi (Major info) = Inr 1 \<and> Atoi (Minor info) = Inr minor \<and> 10 \<le> minor)) \<and>
   (fst (snd (start br output unmarshal)) \<noteq> None \<longrightarrow>
      spawned (snd (snd (start br output unmarshal))) = [] \<and>
      fst (start br output unmarshal) = br) \<and>
   (fst (snd (start br output unmarshal)) = None \<longrightarrow>
      spawned (snd (snd (start br output unmarshal))) =
        [(K8sSSHWorker, SshWorker), (K8sBridgeWorker, BridgeWorker)])"
proof -
  obtain r evs where ck: "checkKubectl output unmarshal = (r, evs)"
    by (cases "checkKubectl output unmarshal")
  then have evs: "evs = [Exec ''kubectl'' [''version'', ''--client'', ''-o'', ''json'']]"
    by (auto simp: checkKubectl_def)
  have ok: "(r = None) \<longleftrightarrow>
     (\<exists>out info minor. output = Inr out \<and> unmarshal out = Inr info \<and>
        Atoi (Major info) = Inr 1 \<and> Atoi (Minor info) = Inr minor \<and> 10 \<le> minor)"
    using checkKubectl_ok_iff [of "output" unmarshal] ck by simp
  show ?thesis
  proof (cases r)
    case None
    with ck evs ok show ?thesis
      by (simp add: start_def spawned_def)
  next
    case (Some err)
    with ck evs ok show ?thesis
      by (simp add: start_def spawned_def)
  qed
qed

theorem start_preflight_witness:
  "fst (snd (start (newBridge ''default'' (DaemonClient 0) 2022) (Inr ''{}'')
          (\<lambda>out. Inr \<lparr>Major = ''1'', Minor = ''9''\<rparr>))) \<noteq> None \<and>
   spawned (snd (snd (start (newBridge ''default'' (DaemonClient 0) 2022) (Inr ''{}'')
          (\<lambda>out. Inr \<lparr>Major = ''1'', Minor = ''9''\<rparr>)))) = [] \<and>
   fst (snd (start (newBridge ''default'' (DaemonClient 0) 2022) (Inr ''{}'')
          (\<lambda>out. Inr \<lparr>Major = ''1'', Minor = ''10''\<rparr>))) = None \<and>
   spawned (snd (snd (start (newBridge ''default'' (DaemonClient 0) 2022) (Inr ''{}'')
          (\<lambda>out. Inr \<lparr>Major = ''1'', Minor = ''10''\<rparr>)))) =
     [(K8sSSHWorker, SshWorker), (K8sBridgeWorker, BridgeWorker)]"
proof -
  let ?br = "newBridge ''default'' (DaemonClient 0) 2022"
  let ?old = "\<lambda>out::string. Inr \<lparr>Major = ''1'', Minor = ''9''\<rparr> :: error + clientVersion"
  let ?new = "\<lambda>out::string. Inr \<lparr>Major = ''1'', Minor = ''10''\<rparr> :: error + clientVersion"
  have bad: "fst (snd (start ?br (Inr ''{}'') ?old)) \<noteq> None"
    by (simp add: start_def checkKubectl_def Atoi_def isDigit_def digitVal_def maxUint64_def)
  have good: "fst (snd (start ?br (Inr ''{}'') ?new)) = None"
    by (simp add: start_def checkKubectl_def Atoi_def isDigit_def digitVal_def maxUint64_def)
  from bad start_preflight [of ?br "Inr ''{}''" ?old]
  have "spawned (snd (snd (start ?br (Inr ''{}'') ?old))) = []"
    by blast
  moreover from good start_preflight [of ?br "Inr ''{}''" ?new]
  have "spawned (snd (snd (start ?br (Inr ''{}'') ?new))) =
      [(K8sSSHWorker, SshWorker), (K8sBridgeWorker, BridgeWorker)]"
    by blast
  ultimately show ?thesis
    using bad good by blast
qed

text \<open>
  C7. \<^verbatim>\<open>check\<close> returns a boolean and nothing else. It dials \<open>localhost:<sshPort>\<close> over TCP
  with a timeout of 15 seconds, and it returns true exactly when the dial gave a connection,
  the read gave a line, and the line contains \<open>SSH\<close>. Whenever it returns false it has logged
  one error line. A connection that was opened is closed before the call returns, so the
  probe leaves nothing behind and can be repeated.
\<close>

theorem check_probe:
  "(fst (check br dial line) \<longleftrightarrow>
      (\<exists>conn msg. dial = Inr conn \<and> line = Inr msg \<and> Contains msg ''SSH'')) \<and>
   hd (snd (check br dial line)) =
      DialTimeout ''tcp'' (''localhost:'' @ Itoa (sshPort br)) (15 * Second) \<and>
   (\<not> fst (check br dial line) \<longrightarrow> length (logged (snd (check br dial line))) = 1) \<and>
   (fst (check br dial line) \<longrightarrow> logged (snd (check br dial line)) = []) \<and>
   (\<forall>conn. dial = Inr conn \<longrightarrow> last (snd (check br dial line)) = CloseTcp conn)"
  by (cases dial; cases line) (auto simp: check_def Let_def logged_def)

theorem check_probe_witness:
  "fst (check (newBridge ''default'' (DaemonClient 0) 2022) (Inr (TcpConn 3))
          (Inr ''SSH-2.0-OpenSSH_8.4'')) \<and>
   \<not> fst (check (newBridge ''default'' (DaemonClient 0) 2022) (Inr (TcpConn 3))
          (Inr ''HTTP/1.1 400 Bad Request'')) \<and>
   length (logged (snd (check (newBridge ''default'' (DaemonClient 0) 2022) (Inr (TcpConn 3))
          (Inr ''HTTP/1.1 400 Bad Request'')))) = 1 \<and>
   last (snd (check (newBridge ''default'' (DaemonClient 0) 2022) (Inr (TcpConn 3))
          (Inr ''HTTP/1.1 400 Bad Request''))) = CloseTcp (TcpConn 3)"
  using check_probe [of "newBridge ''default'' (DaemonClient 0) 2022" "Inr (TcpConn 3)"
          "Inr ''SSH-2.0-OpenSSH_8.4''"]
        check_probe [of "newBridge ''default'' (DaemonClient 0) 2022" "Inr (TcpConn 3)"
          "Inr ''HTTP/1.1 400 Bad Request''"]
  by simp

text \<open>
  C9. \<^verbatim>\<open>checkKubectl\<close> accepts a version only when \<^verbatim>\<open>Major\<close> and \<^verbatim>\<open>Minor\<close> are decimal digit
  strings (a leading \<^verbatim>\<open>+\<close>, which \<^verbatim>\<open>Atoi\<close> reads as a sign, is the one thing allowed besides
  digits). A minor with a trailing \<^verbatim>\<open>+\<close>, such as \<^verbatim>\<open>18+\<close>, does not parse, and the version is
  rejected with the wrapped parse error, although the same version reported as \<^verbatim>\<open>18\<close> is
  accepted.
\<close>

theorem checkKubectl_decimal_only:
  "(fst (checkKubectl (Inr out) unmarshal) = None \<and> unmarshal out = Inr info \<longrightarrow>
      (\<exists>ma mi. (Major info = ma \<or> Major info = CHR ''+'' # ma) \<and> ma \<noteq> [] \<and> list_all isDigit ma \<and>
               (Minor info = mi \<or> Minor info = CHR ''+'' # mi) \<and> mi \<noteq> [] \<and> list_all isDigit mi)) \<and>
   (unmarshal out = Inr info \<and> Minor info = m @ ''+'' \<longrightarrow>
      (\<exists>err. fst (checkKubectl (Inr out) unmarshal) = Some (Wrap err kubectlErr))) \<and>
   (unmarshal out = Inr \<lparr>Major = ''1'', Minor = ''18+''\<rparr> \<longrightarrow>
      fst (checkKubectl (Inr out) unmarshal) =
        Some (Wrap (NumError ''Atoi'' ''18+'' ErrSyntax) kubectlErr)) \<and>
   (unmarshal out = Inr \<lparr>Major = ''1'', Minor = ''18''\<rparr> \<longrightarrow>
      fst (checkKubectl (Inr out) unmarshal) = None)"
proof (intro conjI impI)
  assume a: "fst (checkKubectl (Inr out) unmarshal) = None \<and> unmarshal out = Inr info"
  then obtain minor where
    p: "Atoi (Major info) = Inr 1" "Atoi (Minor info) = Inr minor" "10 \<le> minor"
    using checkKubectl_ok_iff [of "Inr out" unmarshal] by auto
  from p(1) obtain ma where
    "(Major info = ma \<or> Major info = CHR ''+'' # ma) \<and> ma \<noteq> [] \<and> list_all isDigit ma"
    using Atoi_nonneg_shape [of "Major info" 1] by auto
  moreover from p(2,3) obtain mi where
    "(Minor info = mi \<or> Minor info = CHR ''+'' # mi) \<and> mi \<noteq> [] \<and> list_all isDigit mi"
    using Atoi_nonneg_shape [of "Minor info" minor] by auto
  ultimately show "\<exists>ma mi. (Major info = ma \<or> Major info = CHR ''+'' # ma) \<and> ma \<noteq> [] \<and>
      list_all isDigit ma \<and> (Minor info = mi \<or> Minor info = CHR ''+'' # mi) \<and> mi \<noteq> [] \<and>
      list_all isDigit mi"
    by blast
next
  assume a: "unmarshal out = Inr info \<and> Minor info = m @ ''+''"
  obtain e where "Atoi (Minor info) = Inl e"
    using a Atoi_trailing_plus [of m] by auto
  with a show "\<exists>err. fst (checkKubectl (Inr out) unmarshal) = Some (Wrap err kubectlErr)"
    by (auto simp: checkKubectl_def split: sum.splits)
next
  assume "unmarshal out = Inr \<lparr>Major = ''1'', Minor = ''18+''\<rparr>"
  then show "fst (checkKubectl (Inr out) unmarshal) =
      Some (Wrap (NumError ''Atoi'' ''18+'' ErrSyntax) kubectlErr)"
    by (simp add: checkKubectl_def Atoi_def isDigit_def digitVal_def maxUint64_def)
next
  assume "unmarshal out = Inr \<lparr>Major = ''1'', Minor = ''18''\<rparr>"
  then show "fst (checkKubectl (Inr out) unmarshal) = None"
    by (simp add: checkKubectl_def Atoi_def isDigit_def digitVal_def maxUint64_def)
qed

theorem checkKubectl_decimal_only_witness:
  "fst (checkKubectl (Inr ''{}'') (\<lambda>out. Inr \<lparr>Major = ''1'', Minor = ''18+''\<rparr>)) =
     Some (Wrap (NumError ''Atoi'' ''18+'' ErrSyntax) kubectlErr) \<and>
   fst (checkKubectl (Inr ''{}'') (\<lambda>out. Inr \<lparr>Major = ''1'', Minor = ''18''\<rparr>)) = None"
  using checkKubectl_decimal_only
          [of "''{}''" "\<lambda>out. Inr \<lparr>Major = ''1'', Minor = ''18+''\<rparr>" _ "''18''"]
        checkKubectl_decimal_only
          [of "''{}''" "\<lambda>out. Inr \<lparr>Major = ''1'', Minor = ''18''\<rparr>" _ "''18''"]
  by simp

section \<open>The daemon state\<close>

lemma wellFormed_newDaemonState: "wellFormed (fst (newDaemonState env))"
  by (auto simp: newDaemonState_def connect_def wellFormed_def Let_def
           split: option.splits sum.splits)

lemma wellFormed_connect:
  "wellFormed ds \<Longrightarrow> \<not> isConnected ds \<Longrightarrow> wellFormed (fst (connect env ds))"
  by (auto simp: connect_def wellFormed_def isConnected_def split: sum.splits)

lemma wellFormed_disconnect: "wellFormed (fst (disconnect ds))"
  by (simp add: disconnect_def wellFormed_def)

lemma wellFormed_EnsureState: "wellFormed ds \<Longrightarrow> wellFormed (fst (EnsureState env ds))"
  using wellFormed_connect [of ds env]
  by (cases "connect env ds") (auto simp: EnsureState_def Let_def split: option.splits)

lemma DeactivateState_unconnected:
  "\<not> isConnected ds \<Longrightarrow> DeactivateState env ds = Some (ds, None, [])"
  by (simp add: DeactivateState_def)

lemma DeactivateState_connected:
  assumes "conn ds = Some c" and "grpc ds = Some g"
  shows "DeactivateState env ds =
     Some (ds\<lparr>conn := None, grpc := None\<rparr>,
           (if SocketExists env (DaemonSocketName env) \<and> quitResult env \<noteq> None
            then quitResult env else waitVanishes env),
           [Fprint ''Telepresence Daemon quitting...''] @
           (if SocketExists env (DaemonSocketName env) then [QuitRPC g Background] else []) @
           [CloseClientConn c] @
           (if SocketExists env (DaemonSocketName env) \<and> quitResult env \<noteq> None then []
            else [WaitUntilSocketVanishes ''daemon'' (DaemonSocketName env) (5 * Second)]) @
           [if (if SocketExists env (DaemonSocketName env) \<and> quitResult env \<noteq> None
                then quitResult env else waitVanishes env) = None
            then Fprint (''done'' @ nl) else Fprint nl])"
  using assms
  by (auto simp: DeactivateState_def isConnected_def disconnect_def Let_def)

lemma wellFormed_DeactivateState:
  "wellFormed ds \<Longrightarrow> DeactivateState env ds = Some (ds', err, evs) \<Longrightarrow> wellFormed ds'"
  by (auto simp: DeactivateState_def disconnect_def wellFormed_def isConnected_def Let_def
           split: if_splits option.splits prod.splits)

lemma quitCalls_simps [simp]:
  "quitCalls [] = []"
  "quitCalls (QuitRPC g c # evs) = (g, c) # quitCalls evs"
  "quitCalls (Fprint s # evs) = quitCalls evs"
  "quitCalls (CloseClientConn k # evs) = quitCalls evs"
  "quitCalls (WaitUntilSocketVanishes n p t # evs) = quitCalls evs"
  by (simp_all add: quitCalls_def)

lemma vanishWaits_simps [simp]:
  "vanishWaits [] = []"
  "vanishWaits (WaitUntilSocketVanishes n p t # evs) = (n, p, t) # vanishWaits evs"
  "vanishWaits (Fprint s # evs) = vanishWaits evs"
  "vanishWaits (CloseClientConn k # evs) = vanishWaits evs"
  "vanishWaits (QuitRPC g c # evs) = vanishWaits evs"
  by (simp_all add: vanishWaits_def)

text \<open>
  C3, as the code has it. Without a connection \<^verbatim>\<open>DeactivateState\<close> returns nil and does
  nothing. With one, it sends \<^verbatim>\<open>Quit\<close> under \<^verbatim>\<open>context.Background()\<close> only if the daemon socket
  exists; it then drops the connection (both fields nil, the connection closed) whatever
  the call returned; and it waits for the socket to vanish, with a bound of 5 seconds, only
  if no \<^verbatim>\<open>Quit\<close> error occurred: a \<^verbatim>\<open>Quit\<close> error is returned as it is, without waiting.
\<close>

theorem DeactivateState_guarded_quit_and_wait:
  "(\<not> isConnected ds \<longrightarrow> DeactivateState env ds = Some (ds, None, [])) \<and>
   (conn ds = Some c \<and> grpc ds = Some g \<longrightarrow>
      (\<exists>err evs.
         DeactivateState env ds = Some (ds\<lparr>conn := None, grpc := None\<rparr>, err, evs) \<and>
         evs =
           [Fprint ''Telepresence Daemon quitting...''] @
           (if SocketExists env (DaemonSocketName env) then [QuitRPC g Background] else []) @
           [CloseClientConn c] @
           (if SocketExists env (DaemonSocketName env) \<and> quitResult env \<noteq> None then []
            else [WaitUntilSocketVanishes ''daemon'' (DaemonSocketName env) (5 * Second)]) @
           [if err = None then Fprint (''done'' @ nl) else Fprint nl] \<and>
         err =
           (if SocketExists env (DaemonSocketName env) \<and> quitResult env \<noteq> None
            then quitResult env else waitVanishes env) \<and>
         quitCalls evs =
           (if SocketExists env (DaemonSocketName env) then [(g, Background)] else []) \<and>
         vanishWaits evs =
           (if SocketExists env (DaemonSocketName env) \<and> quitResult env \<noteq> None then []
            else [(''daemon'', DaemonSocketName env, 5 * Second)])))"
proof (intro conjI impI)
  assume "\<not> isConnected ds"
  then show "DeactivateState env ds = Some (ds, None, [])"
    by (rule DeactivateState_unconnected)
next
  assume a: "conn ds = Some c \<and> grpc ds = Some g"
  then have d: "DeactivateState env ds =
     Some (ds\<lparr>conn := None, grpc := None\<rparr>,
           (if SocketExists env (DaemonSocketName env) \<and> quitResult env \<noteq> None
            then quitResult env else waitVanishes env),
           [Fprint ''Telepresence Daemon quitting...''] @
           (if SocketExists env (DaemonSocketName env) then [QuitRPC g Background] else []) @
           [CloseClientConn c] @
           (if SocketExists env (DaemonSocketName env) \<and> quitResult env \<noteq> None then []
            else [WaitUntilSocketVanishes ''daemon'' (DaemonSocketName env) (5 * Second)]) @
           [if (if SocketExists env (DaemonSocketName env) \<and> quitResult env \<noteq> None
                then quitResult env else waitVanishes env) = None
            then Fprint (''done'' @ nl) else Fprint nl])"
    using DeactivateState_connected [of ds c g env] by simp
  show "\<exists>err evs.
         DeactivateState env ds = Some (ds\<lparr>conn := None, grpc := None\<rparr>, err, evs) \<and>
         evs =
           [Fprint ''Telepresence Daemon quitting...''] @
           (if SocketExists env (DaemonSocketName env) then [QuitRPC g Background] else []) @
           [CloseClientConn c] @
           (if SocketExists env (DaemonSocketName env) \<and> quitResult env \<noteq> None then []
            else [WaitUntilSocketVanishes ''daemon'' (DaemonSocketName env) (5 * Second)]) @
           [if err = None then Fprint (''done'' @ nl) else Fprint nl] \<and>
         err =
           (if SocketExists env (DaemonSocketName env) \<and> quitResult env \<noteq> None
            then quitResult env else waitVanishes env) \<and>
         quitCalls evs =
           (if SocketExists env (DaemonSocketName env) then [(g, Background)] else []) \<and>
         vanishWaits evs =
           (if SocketExists env (DaemonSocketName env) \<and> quitResult env \<noteq> None then []
            else [(''daemon'', DaemonSocketName env, 5 * Second)])"
    unfolding d by simp
qed

theorem DeactivateState_guarded_quit_and_wait_witness:
  "DeactivateState socketGoneEnv \<lparr>conn = None, grpc = None\<rparr> =
     Some (\<lparr>conn = None, grpc = None\<rparr>, None, []) \<and>
   (\<exists>err evs.
      DeactivateState quitFailsEnv connectedState = Some (\<lparr>conn = None, grpc = None\<rparr>, err, evs) \<and>
      err = Some (External ''rpc error: code = Unavailable'') \<and>
      quitCalls evs = [(DaemonClient 1, Background)] \<and>
      vanishWaits evs = [])"
  using DeactivateState_guarded_quit_and_wait
          [of "\<lparr>conn = None, grpc = None\<rparr>" socketGoneEnv "ClientConn 1" "DaemonClient 1"]
        DeactivateState_guarded_quit_and_wait
          [of connectedState quitFailsEnv "ClientConn 1" "DaemonClient 1"]
  by (simp add: isConnected_def connectedState_def quitFailsEnv_def exampleEnv_def)

text \<open>
  C3, as the claim has it, fails on two runs that start connected. When \<^verbatim>\<open>Quit\<close> returns an
  error, the connection is dropped and the error returned with no wait for the socket.
  When the daemon socket is already gone, no \<^verbatim>\<open>Quit\<close> is sent at all.
\<close>

theorem DeactivateState_unconditional_counterexample:
  "isConnected connectedState \<and>
   DeactivateState quitFailsEnv connectedState =
     Some (\<lparr>conn = None, grpc = None\<rparr>,
           Some (External ''rpc error: code = Unavailable''),
           [Fprint ''Telepresence Daemon quitting...'',
            QuitRPC (DaemonClient 1) Background,
            CloseClientConn (ClientConn 1),
            Fprint nl]) \<and>
   vanishWaits (snd (snd (the (DeactivateState quitFailsEnv connectedState)))) = [] \<and>
   DeactivateState socketGoneEnv connectedState =
     Some (\<lparr>conn = None, grpc = None\<rparr>,
           None,
           [Fprint ''Telepresence Daemon quitting...'',
            CloseClientConn (ClientConn 1),
            WaitUntilSocketVanishes ''daemon'' ''/var/run/telepresence-daemon.socket'' (5 * Second),
            Fprint (''done'' @ nl)]) \<and>
   quitCalls (snd (snd (the (DeactivateState socketGoneEnv connectedState)))) = []"
  by (simp add: DeactivateState_def isConnected_def disconnect_def connectedState_def
        quitFailsEnv_def socketGoneEnv_def exampleEnv_def Let_def)

text \<open>
  C10. From a state the file can build, \<^verbatim>\<open>DeactivateState\<close> returns (it does not panic),
  with an error or without, and leaves \<^verbatim>\<open>conn\<close> and \<^verbatim>\<open>grpc\<close> nil, so that \<^verbatim>\<open>isConnected\<close> is
  false. A second call, whatever the outside then answers, returns nil, leaves the state as
  it is and does nothing: no RPC, no wait, no output.
\<close>

theorem DeactivateState_idempotent:
  assumes "wellFormed ds"
  shows "\<exists>ds' err evs.
           DeactivateState env ds = Some (ds', err, evs) \<and>
           conn ds' = None \<and> grpc ds' = None \<and> \<not> isConnected ds' \<and>
           DeactivateState env' ds' = Some (ds', None, [])"
proof (cases "conn ds")
  case None
  with assms have g: "grpc ds = None" by (simp add: wellFormed_def)
  from None have "\<not> isConnected ds" by (simp add: isConnected_def)
  then have "DeactivateState env ds = Some (ds, None, [])"
    and "DeactivateState env' ds = Some (ds, None, [])"
    by (simp_all add: DeactivateState_unconnected)
  with None g show ?thesis by (simp add: isConnected_def)
next
  case (Some c)
  with assms obtain g where g: "grpc ds = Some g" by (auto simp: wellFormed_def)
  let ?ds' = "ds\<lparr>conn := None, grpc := None\<rparr>"
  have "\<not> isConnected ?ds'" by (simp add: isConnected_def)
  then have "DeactivateState env' ?ds' = Some (?ds', None, [])"
    by (rule DeactivateState_unconnected)
  moreover have "\<exists>err evs. DeactivateState env ds = Some (?ds', err, evs)"
    using DeactivateState_connected [OF Some g, of env] by blast
  ultimately show ?thesis by (auto simp: isConnected_def)
qed

theorem DeactivateState_idempotent_witness:
  "wellFormed connectedState \<and>
   (\<exists>ds' err evs.
      DeactivateState quitFailsEnv connectedState = Some (ds', err, evs) \<and>
      conn ds' = None \<and> grpc ds' = None \<and> \<not> isConnected ds' \<and>
      DeactivateState socketGoneEnv ds' = Some (ds', None, []))"
proof -
  have w: "wellFormed connectedState"
    by (simp add: wellFormed_def connectedState_def)
  from w DeactivateState_idempotent [OF w, of quitFailsEnv socketGoneEnv]
  show ?thesis by blast
qed

text \<open>
  C8. With a connection \<^verbatim>\<open>EnsureState\<close> returns \<open>(false, nil)\<close> and does nothing. Without one
  it runs \<^verbatim>\<open>quitLegacyDaemon\<close> (which, when the legacy socket exists and can be dialled, sends
  the quit request and relays the answer), announces and launches the daemon as root, and,
  the launch having succeeded, waits for the daemon socket to appear with a bound of 10
  seconds. If the wait fails the call fails with the message that names the log file, and the
  state is unchanged. If the socket appeared it dials the socket, and on success stores the
  connection and the RPC client built on it and returns \<open>(true, nil)\<close>.
\<close>

theorem EnsureState_launch_sequence:
  "(isConnected ds \<longrightarrow> EnsureState env ds = (ds, (False, None), [])) \<and>
   (\<not> isConnected ds \<longrightarrow>
      snd (snd (EnsureState env ds)) =
        quitLegacyDaemon env @
        [Fprint (''Launching Telepresence Daemon '' @ DisplayVersion env @ nl),
         RunAsRoot (GetExe env) [''daemon-foreground'', dnsIP env, fallbackIP env]] @
        (if runAsRootResult env = None
         then [WaitUntilSocketAppears ''daemon'' (DaemonSocketName env) (10 * Second)] @
              (if waitAppears env = None
               then [DialSocket CommandContext (DaemonSocketName env)] else [])
         else [])) \<and>
   (\<not> isConnected ds \<and> runAsRootResult env = None \<and> waitAppears env \<noteq> None \<longrightarrow>
      fst (EnsureState env ds) = ds \<and>
      fst (snd (EnsureState env ds)) =
        (False, Some (Errorf ''daemon service did not start (see %s for more info)''
                        [ArgS (Logfile env)]))) \<and>
   (\<not> isConnected ds \<and> runAsRootResult env = None \<and> waitAppears env = None \<and>
    dialSocket env = Inr c \<longrightarrow>
      fst (EnsureState env ds) = ds\<lparr>conn := Some c, grpc := Some (NewDaemonClient c)\<rparr> \<and>
      isConnected (fst (EnsureState env ds)) \<and>
      fst (snd (EnsureState env ds)) = (True, None)) \<and>
   (SocketExists env legacySocketName \<and> legacyDial env = Inr lines \<longrightarrow>
      quitLegacyDaemon env =
        [LegacyDial ''unix'' legacySocketName, LegacyWrite legacyQuitRequest] @
        map (\<lambda>l. Fprint (''Legacy daemon: '' @ l @ nl)) lines @ [LegacyClose]) \<and>
   (\<not> SocketExists env legacySocketName \<longrightarrow> quitLegacyDaemon env = [])"
  by (auto simp: EnsureState_def connect_def quitLegacyDaemon_def isConnected_def Let_def
           split: option.splits sum.splits)

theorem EnsureState_launch_sequence_witness:
  "EnsureState exampleEnv connectedState = (connectedState, (False, None), []) \<and>
   snd (snd (EnsureState exampleEnv \<lparr>conn = None, grpc = None\<rparr>)) =
     [LegacyDial ''unix'' legacySocketName,
      LegacyWrite legacyQuitRequest,
      Fprint (''Legacy daemon: Edge Control Daemon quitting...'' @ nl),
      LegacyClose,
      Fprint (''Launching Telepresence Daemon v2.0.0'' @ nl),
      RunAsRoot ''/usr/local/bin/telepresence'' [''daemon-foreground'', '''', ''''],
      WaitUntilSocketAppears ''daemon'' ''/var/run/telepresence-daemon.socket'' (10 * Second),
      DialSocket CommandContext ''/var/run/telepresence-daemon.socket''] \<and>
   fst (EnsureState exampleEnv \<lparr>conn = None, grpc = None\<rparr>) = connectedState \<and>
   fst (snd (EnsureState exampleEnv \<lparr>conn = None, grpc = None\<rparr>)) = (True, None) \<and>
   fst (snd (EnsureState neverAppearsEnv \<lparr>conn = None, grpc = None\<rparr>)) =
     (False, Some (Errorf ''daemon service did not start (see %s for more info)''
                     [ArgS ''/tmp/telepresence.log'']))"
  using EnsureState_launch_sequence
          [of connectedState exampleEnv "ClientConn 1" "[''Edge Control Daemon quitting...'']"]
        EnsureState_launch_sequence
          [of "\<lparr>conn = None, grpc = None\<rparr>" exampleEnv "ClientConn 1"
              "[''Edge Control Daemon quitting...'']"]
        EnsureState_launch_sequence
          [of "\<lparr>conn = None, grpc = None\<rparr>" neverAppearsEnv "ClientConn 1"
              "[''Edge Control Daemon quitting...'']"]
  by (simp add: isConnected_def connectedState_def exampleEnv_def neverAppearsEnv_def)

section \<open>Workload injection\<close>

lemma delete_set_annotation:
  "Annotations m k = None \<Longrightarrow> deleteAnnotation k (setAnnotation k v m) = m"
proof -
  assume "Annotations m k = None"
  then have "(Annotations m)(k := None) = Annotations m"
    by (rule fun_upd_idem)
  then show ?thesis
    by (simp add: deleteAnnotation_def setAnnotation_def)
qed

lemma filter_agent:
  "\<not> list_ex (\<lambda>c. Name c = n) cs \<Longrightarrow> Name a = n \<Longrightarrow>
     filter (\<lambda>c. Name c \<noteq> n) (cs @ [a]) = cs"
  by (simp add: list_ex_iff filter_id_conv)

lemma Name_sanitizeContainer: "Name (sanitizeContainer c) = Name c"
  by (simp add: sanitizeContainer_def)

lemma sanitizeContainer_agent:
  "sanitizeContainer (agentContainer cv agentImage p) = agentContainer cv agentImage p"
  by (simp add: sanitizeContainer_def agentContainer_def)

lemma Annotations_sanitizeMeta: "Annotations (sanitizeMeta m) = Annotations m"
  by (simp add: sanitizeMeta_def)

lemma sanitizeMeta_setAnnotation:
  "sanitizeMeta (setAnnotation k v m) = setAnnotation k v (sanitizeMeta m)"
  by (simp add: sanitizeMeta_def setAnnotation_def)

lemma hasAgent_sanitizeWorkload: "hasAgent cv (sanitizeWorkload obj) = hasAgent cv obj"
  by (simp add: hasAgent_def sanitizeWorkload_def list_ex_iff Name_sanitizeContainer)

lemma sanitizeWorkload_idem: "sanitizeWorkload (sanitizeWorkload obj) = sanitizeWorkload obj"
  by (simp add: sanitizeWorkload_def sanitizeMeta_def sanitizeContainer_def comp_def)

text \<open>What a successful call on a workload without sidecar returns.\<close>

lemma addAgentToWorkload_fresh:
  assumes "\<not> hasAgent cv obj"
      and "addAgentToWorkload cv portName agentImage obj svc = Inr (obj', svc')"
  shows "\<exists>c p. findMatchingPort portName svc (Containers obj) = Inr (c, p) \<and>
           obj' = obj\<lparr>Containers := Containers obj @ [agentContainer cv agentImage p],
                      ObjectMeta := setAnnotation (annotationKey cv)
                        (Itoa (case svc of None \<Rightarrow> ContainerPort p | Some s \<Rightarrow> TargetPort s))
                        (ObjectMeta obj)\<rparr> \<and>
           svc' = map_option
                    (\<lambda>s. s\<lparr>TargetPort := agentPort cv,
                           SvcObjectMeta := setAnnotation (annotationKey cv) (Itoa (TargetPort s))
                             (SvcObjectMeta s)\<rparr>) svc"
  using assms
  by (cases svc) (auto simp: addAgentToWorkload_def Let_def split: sum.splits)

lemma hasAgent_appended:
  "hasAgent cv (obj\<lparr>Containers := Containers obj @ [agentContainer cv agentImage p],
                    ObjectMeta := m\<rparr>)"
  by (simp add: hasAgent_def agentContainer_def)

lemma undoObjectMods_injected:
  assumes "\<not> hasAgent cv obj" and "Annotations (ObjectMeta obj) (annotationKey cv) = None"
  shows "undoObjectMods cv
           (obj\<lparr>Containers := Containers obj @ [agentContainer cv agentImage p],
                ObjectMeta := setAnnotation (annotationKey cv) v (ObjectMeta obj)\<rparr>) = Inr obj"
proof -
  have n: "Name (agentContainer cv agentImage p) = agentContainerName cv"
    by (simp add: agentContainer_def)
  from assms(1) have f: "filter (\<lambda>c. Name c \<noteq> agentContainerName cv)
      (Containers obj @ [agentContainer cv agentImage p]) = Containers obj"
    using filter_agent [OF _ n] by (simp add: hasAgent_def)
  show ?thesis
    using f n delete_set_annotation [OF assms(2)]
    by (simp add: undoObjectMods_def hasAgent_def setAnnotation_def)
qed

lemma undoServiceMods_rewritten:
  assumes "Annotations (SvcObjectMeta s) (annotationKey cv) = None"
      and "- (2 ^ 31) \<le> port" and "port < 2 ^ 31"
  shows "undoServiceMods cv
           (s\<lparr>TargetPort := q,
              SvcObjectMeta := setAnnotation (annotationKey cv) (Itoa port) (SvcObjectMeta s)\<rparr>) =
         Inr (s\<lparr>TargetPort := port\<rparr>)"
proof -
  from assms(2,3) have "Atoi (Itoa port) = Inr port"
    by (intro Atoi_Itoa) simp_all
  then show ?thesis
    using delete_set_annotation [OF assms(1)]
    by (simp add: undoServiceMods_def setAnnotation_def)
qed

text \<open>
  C1. Take a workload of any of the three kinds that has not been injected and, possibly, a
  service, and let \<^verbatim>\<open>addAgentToWorkload\<close> accept them. Then \<^verbatim>\<open>undoObjectMods\<close> on the returned
  workload gives back the original workload and \<^verbatim>\<open>undoServiceMods\<close> on the returned service
  gives back the original service (a nil service is returned as nil). The same holds the way
  the tests compare: undoing the sanitized results gives objects whose sanitized forms are
  those of the originals, that is, equal up to resource version, generation and creation
  timestamp.
\<close>

theorem add_then_undo_restores:
  assumes "pristine cv obj svc"
      and "addAgentToWorkload cv portName agentImage obj svc = Inr (obj', svc')"
  shows "undoObjectMods cv obj' = Inr obj \<and>
         (\<exists>obj2. undoObjectMods cv (sanitizeWorkload obj') = Inr obj2 \<and>
                  sanitizeWorkload obj2 = sanitizeWorkload obj) \<and>
         (case svc of
            None \<Rightarrow> svc' = None
          | Some s \<Rightarrow>
              (\<exists>s'. svc' = Some s' \<and> undoServiceMods cv s' = Inr s \<and>
                     undoServiceMods cv (sanitizeService s') = Inr (sanitizeService s)))"
proof -
  from assms(1) have na: "\<not> hasAgent cv obj"
    and an: "Annotations (ObjectMeta obj) (annotationKey cv) = None"
    by (simp_all add: pristine_def)
  from addAgentToWorkload_fresh [OF na assms(2)] obtain c p where
    obj': "obj' = obj\<lparr>Containers := Containers obj @ [agentContainer cv agentImage p],
                      ObjectMeta := setAnnotation (annotationKey cv)
                        (Itoa (case svc of None \<Rightarrow> ContainerPort p | Some s \<Rightarrow> TargetPort s))
                        (ObjectMeta obj)\<rparr>"
    and svc': "svc' = map_option
                    (\<lambda>s. s\<lparr>TargetPort := agentPort cv,
                           SvcObjectMeta := setAnnotation (annotationKey cv) (Itoa (TargetPort s))
                             (SvcObjectMeta s)\<rparr>) svc"
    by blast
  have w1: "undoObjectMods cv obj' = Inr obj"
    unfolding obj' using na an by (rule undoObjectMods_injected)
  let ?v = "Itoa (case svc of None \<Rightarrow> ContainerPort p | Some s \<Rightarrow> TargetPort s)"
  let ?so = "sanitizeWorkload obj"
  have so: "sanitizeWorkload obj' =
      ?so\<lparr>Containers := Containers ?so @ [agentContainer cv agentImage p],
          ObjectMeta := setAnnotation (annotationKey cv) ?v (ObjectMeta ?so)\<rparr>"
    unfolding obj'
    by (simp add: sanitizeWorkload_def sanitizeMeta_setAnnotation sanitizeContainer_agent)
  have "\<not> hasAgent cv ?so"
    using na by (simp add: hasAgent_sanitizeWorkload)
  moreover have "Annotations (ObjectMeta ?so) (annotationKey cv) = None"
    using an by (simp add: sanitizeWorkload_def Annotations_sanitizeMeta)
  ultimately have "undoObjectMods cv (sanitizeWorkload obj') = Inr ?so"
    unfolding so by (rule undoObjectMods_injected)
  then have w2: "\<exists>obj2. undoObjectMods cv (sanitizeWorkload obj') = Inr obj2 \<and>
      sanitizeWorkload obj2 = sanitizeWorkload obj"
    by (simp add: sanitizeWorkload_idem)
  have s: "case svc of
      None \<Rightarrow> svc' = None
    | Some s \<Rightarrow>
        (\<exists>s'. svc' = Some s' \<and> undoServiceMods cv s' = Inr s \<and>
               undoServiceMods cv (sanitizeService s') = Inr (sanitizeService s))"
  proof (cases svc)
    case None
    with svc' show ?thesis by simp
  next
    case (Some s)
    with assms(1) have sa: "Annotations (SvcObjectMeta s) (annotationKey cv) = None"
      and lo: "- (2 ^ 31) \<le> TargetPort s" and hi: "TargetPort s < 2 ^ 31"
      by (simp_all add: pristine_def)
    let ?s' = "s\<lparr>TargetPort := agentPort cv,
                  SvcObjectMeta := setAnnotation (annotationKey cv) (Itoa (TargetPort s))
                    (SvcObjectMeta s)\<rparr>"
    from Some svc' have e: "svc' = Some ?s'" by simp
    have u1: "undoServiceMods cv ?s' = Inr s"
      using undoServiceMods_rewritten [OF sa lo hi, of "agentPort cv"] by simp
    let ?ss = "sanitizeService s"
    have ss: "sanitizeService ?s' =
        ?ss\<lparr>TargetPort := agentPort cv,
            SvcObjectMeta := setAnnotation (annotationKey cv) (Itoa (TargetPort s))
              (SvcObjectMeta ?ss)\<rparr>"
      by (simp add: sanitizeService_def sanitizeMeta_setAnnotation)
    have "Annotations (SvcObjectMeta ?ss) (annotationKey cv) = None"
      using sa by (simp add: sanitizeService_def Annotations_sanitizeMeta)
    from undoServiceMods_rewritten [OF this lo hi, of "agentPort cv"]
    have u2: "undoServiceMods cv (sanitizeService ?s') = Inr ?ss"
      unfolding ss by (simp add: sanitizeService_def)
    from Some e u1 u2 show ?thesis by simp
  qed
  from w1 w2 s show ?thesis by blast
qed

theorem add_then_undo_restores_witness:
  "pristine exampleConventions exampleDeployment (Some exampleService) \<and>
   (\<exists>obj' s'.
      addAgentToWorkload exampleConventions ''http'' ''agent:1.0'' exampleDeployment
        (Some exampleService) = Inr (obj', Some s') \<and>
      map Name (Containers obj') = [''app'', ''traffic-agent''] \<and>
      TargetPort s' = 9900 \<and>
      undoObjectMods exampleConventions obj' = Inr exampleDeployment \<and>
      undoServiceMods exampleConventions s' = Inr exampleService)"
proof -
  have p: "pristine exampleConventions exampleDeployment (Some exampleService)"
    by (simp add: pristine_def hasAgent_def exampleConventions_def exampleDeployment_def
          exampleService_def exampleMeta_def)
  obtain obj' s' where
    a: "addAgentToWorkload exampleConventions ''http'' ''agent:1.0'' exampleDeployment
          (Some exampleService) = Inr (obj', Some s')"
    and n: "map Name (Containers obj') = [''app'', ''traffic-agent'']"
    and t: "TargetPort s' = 9900"
    by (simp add: addAgentToWorkload_def hasAgent_def findMatchingPort_def portMatches_def
          agentContainer_def exampleConventions_def exampleDeployment_def exampleService_def
          Let_def)
  from add_then_undo_restores [OF p a]
  have "undoObjectMods exampleConventions obj' = Inr exampleDeployment"
    and "undoServiceMods exampleConventions s' = Inr exampleService"
    by simp_all
  with p a n t show ?thesis by (intro conjI exI)
qed

text \<open>
  C2. Whenever \<^verbatim>\<open>addAgentToWorkload\<close> accepts a workload, a service and a port name, the
  workload it returns carries the sidecar under its conventional name, and a second call on
  what the first returned gives back exactly that, workload and service, with no change.
\<close>

theorem addAgentToWorkload_idempotent:
  assumes "addAgentToWorkload cv portName agentImage obj svc = Inr (obj', svc')"
  shows "hasAgent cv obj' \<and>
         addAgentToWorkload cv portName agentImage obj' svc' = Inr (obj', svc')"
proof -
  have h: "hasAgent cv obj'"
  proof (cases "hasAgent cv obj")
    case True
    with assms show ?thesis by (simp add: addAgentToWorkload_def)
  next
    case False
    from addAgentToWorkload_fresh [OF False assms] show ?thesis
      using hasAgent_appended by auto
  qed
  then show ?thesis by (simp add: addAgentToWorkload_def)
qed

theorem addAgentToWorkload_idempotent_witness:
  "\<exists>obj'.
      addAgentToWorkload exampleConventions ''http'' ''agent:1.0'' exampleDeployment None =
        Inr (obj', None) \<and>
      map Name (Containers obj') = [''app'', ''traffic-agent''] \<and>
      hasAgent exampleConventions obj' \<and>
      addAgentToWorkload exampleConventions ''http'' ''agent:1.0'' obj' None = Inr (obj', None)"
proof -
  obtain obj' where
    a: "addAgentToWorkload exampleConventions ''http'' ''agent:1.0'' exampleDeployment None =
          Inr (obj', None)"
    and n: "map Name (Containers obj') = [''app'', ''traffic-agent'']"
    by (simp add: addAgentToWorkload_def hasAgent_def findMatchingPort_def portMatches_def
          agentContainer_def exampleConventions_def exampleDeployment_def Let_def)
  from addAgentToWorkload_idempotent [OF a] a n show ?thesis by (intro exI [of _ "obj'"]) simp
qed

end
